theory Spec2Isabelle
  imports Complex_Main "HOL-Library.Word"
begin

section \<open>Voice language translator (Translator.py)\<close>

text \<open>
  The program sequences calls to external collaborators (microphone, speech recognition,
  language detection, translation, text-to-speech, audio codec) and keeps a little session
  state and some temporary files. The collaborators are parameters of the model (the
  record \<open>env\<close>); everything the script itself does (the order of the calls, the
  \<open>try\<close>/\<open>except\<close>/\<open>finally\<close> blocks, the dictionary look-ups, the temporary files, the
  messages it renders) is written out.

  Two kinds of call are taken to succeed: the rendering calls of the page
  (\<open>st.info\<close>, \<open>st.error\<close>, \<open>st.audio\<close> and the like), which only add to the page, and
  \<open>os.path.exists\<close> and \<open>os.unlink\<close> in the \<open>finally\<close> clauses.
\<close>

subsection \<open>Values\<close>

type_synonym bytes = "8 word list"
type_synonym path = string

text \<open>
  A Python float, as far as the script uses it: the only operation on \<open>speed\<close> is the
  comparison \<open>speed != 1.0\<close>. NaN differs from every float, itself included.
\<close>

datatype pyfloat = Fin rat | PInf | NInf | NaN

fun float_ne :: "pyfloat \<Rightarrow> pyfloat \<Rightarrow> bool" where
  "float_ne NaN y = True"
| "float_ne x NaN = True"
| "float_ne x y = (x \<noteq> y)"

text \<open>
  Exceptions. Every value of \<open>exn\<close> is an instance of a subclass of Python's
  \<open>Exception\<close>: the three classes of \<open>speech_recognition\<close> that the script names or
  meets, the error of reading a local variable that is not bound, and one constructor for
  all the others. The string is \<open>str(e)\<close>.
\<close>

datatype exn_class =
  WaitTimeoutError | UnknownValueError | RequestError | UnboundLocalError | OtherException

datatype exn = Exn exn_class string

fun str_exn :: "exn \<Rightarrow> string" where
  "str_exn (Exn c m) = m"

text \<open>The decoded audio of \<open>pydub\<close> (an \<open>AudioSegment\<close>): its raw samples.\<close>

datatype audio_segment = AudioSegment bytes

text \<open>What the script renders on the page, in order.\<close>

datatype ui_event =
    StTitle string
  | StInfo string
  | StError string
  | StSuccess string
  | StWarning string
  | StSubheader string
  | StWrite string
  | StAudio bytes

subsection \<open>The language registries\<close>

definition LANGUAGES :: "(string \<times> string) list" where
  "LANGUAGES =
     [(''en'', ''English''), (''es'', ''Spanish''), (''fr'', ''French''),
      (''de'', ''German''), (''it'', ''Italian''), (''pt'', ''Portuguese''),
      (''ru'', ''Russian''), (''zh'', ''Chinese''), (''ja'', ''Japanese''),
      (''hi'', ''Hindi''), (''ta'', ''Tamil'')]"

definition TTS_LANGUAGE_MAPPING :: "(string \<times> string) list" where
  "TTS_LANGUAGE_MAPPING =
     [(''en'', ''en''), (''es'', ''es''), (''fr'', ''fr''), (''de'', ''de''),
      (''it'', ''it''), (''pt'', ''pt''), (''ru'', ''ru''), (''zh'', ''zh''),
      (''ja'', ''ja''), (''hi'', ''hi''), (''ta'', ''ta'')]"

text \<open>Python's \<open>d.get(k, default)\<close>.\<close>

definition dict_get :: "('k \<times> 'v) list \<Rightarrow> 'k \<Rightarrow> 'v \<Rightarrow> 'v" where
  "dict_get d k dflt = (case map_of d k of None \<Rightarrow> dflt | Some v \<Rightarrow> v)"

subsection \<open>Session state, the world, the collaborators\<close>

text \<open>
  \<open>st.session_state\<close>: a key that is absent, or whose value is \<open>None\<close>, is \<open>None\<close> here.
  \<open>detected_lang\<close> holds the pair that \<open>detect_language\<close> returned, whose first component
  may itself be \<open>None\<close>.
\<close>

record session =
  input_text :: "string option"
  detected_lang :: "(string option \<times> string) option"
  translated_text :: "string option"
  target_lang :: "(string \<times> string) option"

text \<open>
  The state the script acts on: the file system, the log of the temporary files created
  so far, the page, the log of the \<open>gTTS\<close> objects constructed (text and voice), the
  session state, and a clock that counts the calls to collaborators whose answer may
  change from one call to the next.
\<close>

record world =
  files :: "path \<rightharpoonup> bytes"
  temps :: "path list"
  ui :: "ui_event list"
  gtts_calls :: "(string \<times> string) list"
  clock :: nat
  session :: session

text \<open>
  The collaborators. Each one answers with a value or with an exception; those that
  depend on the outside world (device, network, random seed) take the clock. The last
  field is the interpreter's message for reading the named local variable while it is
  unbound, whose wording differs between versions of Python.
\<close>

record env =
  sr_microphone :: "nat \<Rightarrow> exn option"
  sr_listen :: "nat \<Rightarrow> exn + bytes"
  tempfile_create :: "nat \<Rightarrow> string \<Rightarrow> exn + path"
  file_write :: "nat \<Rightarrow> path \<Rightarrow> bytes \<Rightarrow> exn option"
  sr_audio_file :: "bytes \<Rightarrow> exn + bytes"
  sr_recognize_google :: "nat \<Rightarrow> bytes \<Rightarrow> exn + string"
  langdetect_detect :: "nat \<Rightarrow> string \<Rightarrow> exn + string"
  mtranslate_translate :: "nat \<Rightarrow> string option \<Rightarrow> string \<Rightarrow> string \<Rightarrow> exn + string"
  gtts_init :: "string \<Rightarrow> string \<Rightarrow> exn option"
  gtts_save :: "nat \<Rightarrow> string \<Rightarrow> string \<Rightarrow> exn + bytes"
  pydub_from_file :: "bytes \<Rightarrow> exn + audio_segment"
  pydub_speedup :: "audio_segment \<Rightarrow> pyfloat \<Rightarrow> exn + audio_segment"
  pydub_export :: "audio_segment \<Rightarrow> exn + bytes"
  python_unbound_local :: "string \<Rightarrow> string"

type_synonym 'a io = "world \<Rightarrow> (exn + 'a) \<times> world"

definition st_emit :: "ui_event \<Rightarrow> world \<Rightarrow> world" where
  "st_emit ev w = w\<lparr>ui := ui w @ [ev]\<rparr>"

definition tick :: "world \<Rightarrow> world" where
  "tick w = w\<lparr>clock := Suc (clock w)\<rparr>"

text \<open>\<open>try: m except Exception as e: h e\<close>, for a body \<open>m\<close> with no local that \<open>h\<close> reads.\<close>

definition try_except :: "'a io \<Rightarrow> (exn \<Rightarrow> 'a io) \<Rightarrow> 'a io" where
  "try_except m h w = (case m w of (Inl e, w') \<Rightarrow> h e w' | (Inr v, w') \<Rightarrow> (Inr v, w'))"

text \<open>Python's truth value of a string or \<open>None\<close>.\<close>

fun truthy :: "string option \<Rightarrow> bool" where
  "truthy None = False"
| "truthy (Some s) = (s \<noteq> [])"

subsection \<open>detect_language\<close>

definition detect_language_try :: "env \<Rightarrow> string \<Rightarrow> (string option \<times> string) io" where
  "detect_language_try env text w =
     (case langdetect_detect env (clock w) text of
        Inl e \<Rightarrow> (Inl e, tick w)
      | Inr lang_code \<Rightarrow> (Inr (Some lang_code, dict_get LANGUAGES lang_code lang_code), tick w))"

definition detect_language :: "env \<Rightarrow> string \<Rightarrow> (string option \<times> string) io" where
  "detect_language env text =
     try_except (detect_language_try env text) (\<lambda>e w. (Inr (None, ''Unknown''), w))"

subsection \<open>adjust_speed\<close>

definition adjust_speed_try :: "env \<Rightarrow> bytes \<Rightarrow> pyfloat \<Rightarrow> bytes io" where
  "adjust_speed_try env audio_bytes speed w =
     (case pydub_from_file env audio_bytes of
        Inl e \<Rightarrow> (Inl e, w)
      | Inr audio \<Rightarrow>
          (case (if float_ne speed (Fin 1) then pydub_speedup env audio speed else Inr audio) of
             Inl e \<Rightarrow> (Inl e, w)
           | Inr audio' \<Rightarrow>
               (case pydub_export env audio' of
                  Inl e \<Rightarrow> (Inl e, w)
                | Inr out \<Rightarrow> (Inr out, w))))"

definition adjust_speed :: "env \<Rightarrow> bytes \<Rightarrow> pyfloat \<Rightarrow> bytes io" where
  "adjust_speed env audio_bytes speed =
     try_except (adjust_speed_try env audio_bytes speed)
       (\<lambda>e w. (Inr audio_bytes, st_emit (StError (''Speed adjustment error: '' @ str_exn e)) w))"

subsection \<open>Temporary files\<close>

text \<open>
  \<open>tempfile.NamedTemporaryFile(suffix=..., delete=False)\<close>, entered and left again:
  the collaborator picks the name (or fails), the file is created empty and stays.
\<close>

definition named_temporary_file :: "env \<Rightarrow> string \<Rightarrow> path io" where
  "named_temporary_file env suffix w =
     (case tempfile_create env (clock w) suffix of
        Inl e \<Rightarrow> (Inl e, tick w)
      | Inr p \<Rightarrow> (Inr p, (tick w)\<lparr>files := (files w)(p \<mapsto> []), temps := temps w @ [p]\<rparr>))"

text \<open>\<open>if os.path.exists(p): os.unlink(p)\<close>, run when the local that holds \<open>p\<close> is bound.\<close>

definition unlink_if_exists :: "path option \<Rightarrow> world \<Rightarrow> world" where
  "unlink_if_exists local w =
     (case local of
        None \<Rightarrow> w
      | Some p \<Rightarrow> if files w p \<noteq> None then w\<lparr>files := (files w)(p := None)\<rparr> else w)"

subsection \<open>record_audio\<close>

definition record_audio :: "env \<Rightarrow> path io" where
  "record_audio env w =
     (case sr_microphone env (clock w) of
        Some e \<Rightarrow> (Inl e, tick w)
      | None \<Rightarrow>
          (let w1 = st_emit (StInfo ''Speak now (3-5 seconds)...'') (tick w) in
           case sr_listen env (clock w1) of
             Inl e \<Rightarrow> (Inl e, tick w1)
           | Inr wav_data \<Rightarrow>
               (case named_temporary_file env ''.wav'' (tick w1) of
                  (Inl e, w2) \<Rightarrow> (Inl e, w2)
                | (Inr p, w2) \<Rightarrow>
                    (case file_write env (clock w2) p wav_data of
                       Some e \<Rightarrow> (Inl e, tick w2)
                     | None \<Rightarrow> (Inr p, (tick w2)\<lparr>files := (files w2)(p \<mapsto> wav_data)\<rparr>)))))"

subsection \<open>text_to_speech\<close>

text \<open>
  The \<open>try\<close> block. Besides its outcome it gives the binding of the local \<open>temp_path\<close>
  when the block is left, which the \<open>finally\<close> clause reads.
\<close>

definition text_to_speech_try ::
  "env \<Rightarrow> string \<Rightarrow> string \<Rightarrow> pyfloat \<Rightarrow> world \<Rightarrow> (exn + bool) \<times> path option \<times> world" where
  "text_to_speech_try env text language_code speed w =
     (case named_temporary_file env ''.mp3'' w of
        (Inl e, w1) \<Rightarrow> (Inl e, None, w1)
      | (Inr temp_path, w1) \<Rightarrow>
          (let lang = dict_get TTS_LANGUAGE_MAPPING language_code ''en'';
               w2 = w1\<lparr>gtts_calls := gtts_calls w1 @ [(text, lang)]\<rparr>
           in case gtts_init env text lang of
                Some e \<Rightarrow> (Inl e, Some temp_path, w2)
              | None \<Rightarrow>
                  (case gtts_save env (clock w2) text lang of
                     Inl e \<Rightarrow> (Inl e, Some temp_path, tick w2)
                   | Inr mp3 \<Rightarrow>
                       (let w3 = (tick w2)\<lparr>files := (files w2)(temp_path \<mapsto> mp3)\<rparr>
                        in case files w3 temp_path of
                             None \<Rightarrow> (Inl (Exn OtherException ''No such file or directory''),
                                      Some temp_path, w3)
                           | Some audio_bytes \<Rightarrow>
                               (case (if float_ne speed (Fin 1)
                                      then adjust_speed env audio_bytes speed w3
                                      else (Inr audio_bytes, w3)) of
                                  (Inl e, w4) \<Rightarrow> (Inl e, Some temp_path, w4)
                                | (Inr audio_bytes', w4) \<Rightarrow>
                                    (Inr True, Some temp_path,
                                     st_emit (StAudio audio_bytes') w4))))))"

definition text_to_speech_except :: "exn \<Rightarrow> bool io" where
  "text_to_speech_except e w =
     (Inr False, st_emit (StError (''Text-to-speech error: '' @ str_exn e)) w)"

definition text_to_speech :: "env \<Rightarrow> string \<Rightarrow> string \<Rightarrow> pyfloat \<Rightarrow> bool io" where
  "text_to_speech env text language_code speed w =
     (case text_to_speech_try env text language_code speed w of
        (r, temp_path, w1) \<Rightarrow>
          (case (case r of Inl e \<Rightarrow> text_to_speech_except e w1 | Inr v \<Rightarrow> (Inr v, w1)) of
             (r', w2) \<Rightarrow> (r', unlink_if_exists temp_path w2)))"

subsection \<open>main: the record action\<close>

text \<open>
  The body of \<open>if st.button("Record Voice")\<close>. The \<open>try\<close> block gives, besides its
  outcome, the binding of the local \<open>audio_file\<close> for the \<open>finally\<close> clause.
\<close>

definition record_try :: "env \<Rightarrow> world \<Rightarrow> (exn + unit) \<times> path option \<times> world" where
  "record_try env w =
     (case record_audio env w of
        (Inl e, w1) \<Rightarrow> (Inl e, None, w1)
      | (Inr audio_file, w1) \<Rightarrow>
          (case files w1 audio_file of
             None \<Rightarrow> (Inl (Exn OtherException ''No such file or directory''), Some audio_file, w1)
           | Some wav \<Rightarrow>
               (case sr_audio_file env wav of
                  Inl e \<Rightarrow> (Inl e, Some audio_file, w1)
                | Inr audio_data \<Rightarrow>
                    (case sr_recognize_google env (clock w1) audio_data of
                       Inl e \<Rightarrow> (Inl e, Some audio_file, tick w1)
                     | Inr text \<Rightarrow>
                         (let w2 = (tick w1)\<lparr>session := (session w1)\<lparr>input_text := Some text\<rparr>\<rparr>
                          in if truthy (input_text (session w2))
                             then (case detect_language env text w2 of
                                     (Inl e, w3) \<Rightarrow> (Inl e, Some audio_file, w3)
                                   | (Inr detected, w3) \<Rightarrow>
                                       (Inr (), Some audio_file,
                                        st_emit (StSuccess ''Voice recorded successfully!'')
                                          (w3\<lparr>session :=
                                                (session w3)\<lparr>detected_lang := Some detected\<rparr>\<rparr>)))
                             else (Inr (), Some audio_file, w2))))))"

fun record_error_message :: "exn \<Rightarrow> string" where
  "record_error_message (Exn UnknownValueError m) =
     ''Could not understand audio. Please try again.''"
| "record_error_message (Exn RequestError m) = ''Speech recognition service error: '' @ m"
| "record_error_message (Exn c m) = ''Error: '' @ m"

definition record_clicked :: "env \<Rightarrow> unit io" where
  "record_clicked env w =
     (case record_try env w of
        (r, audio_file, w1) \<Rightarrow>
          (case r of
             Inl e \<Rightarrow> (Inr (), unlink_if_exists audio_file
                                 (st_emit (StError (record_error_message e)) w1))
           | Inr u \<Rightarrow> (Inr u, unlink_if_exists audio_file w1)))"

subsection \<open>main: the translate action\<close>

text \<open>
  The body of \<open>if st.button("Translate")\<close>; \<open>selected\<close> is the local \<open>target_lang\<close>,
  the value the select box returned (a pair of the registry, or \<open>None\<close>).
\<close>

definition translate_try :: "env \<Rightarrow> string \<times> string \<Rightarrow> unit io" where
  "translate_try env selected w =
     (case mtranslate_translate env (clock w) (input_text (session w)) (fst selected) ''auto'' of
        Inl e \<Rightarrow> (Inl e, tick w)
      | Inr t \<Rightarrow> (Inr (), (tick w)\<lparr>session := (session w)\<lparr>translated_text := Some t\<rparr>\<rparr>))"

definition translate_clicked :: "env \<Rightarrow> (string \<times> string) option \<Rightarrow> unit io" where
  "translate_clicked env selected w =
     (case selected of
        None \<Rightarrow> (Inr (), w)
      | Some choice \<Rightarrow>
          try_except (translate_try env choice)
            (\<lambda>e w'. (Inr (), st_emit (StError (''Translation error: '' @ str_exn e)) w')) w)"

subsection \<open>main: display and playback of the translation\<close>



text \<open>
  The call of \<open>text_to_speech\<close> with the target code and, when it returns \<open>False\<close>, the
  warning and the second call with \<open>'en'\<close>, whose result is dropped.
\<close>

definition speak_translation :: "env \<Rightarrow> string \<Rightarrow> string \<Rightarrow> pyfloat \<Rightarrow> unit io" where
  "speak_translation env text code speed w =
     (case text_to_speech env text code speed w of
        (Inl e, w1) \<Rightarrow> (Inl e, w1)
      | (Inr played, w1) \<Rightarrow>
          if \<not> played
          then (case text_to_speech env text ''en'' speed
                       (st_emit (StWarning
                          ''Couldn't play audio in selected language. Trying English...'') w1) of
                  (Inl e, w2) \<Rightarrow> (Inl e, w2)
                | (Inr played', w2) \<Rightarrow> (Inr (), w2))
          else (Inr (), w1))"


subsection \<open>main: one run of the script\<close>







subsection \<open>Example collaborators\<close>

text \<open>
  A run in which every collaborator answers: the codec decodes any byte string and its
  encoder writes a header byte in front of the samples, so that decoding and encoding
  again does not give the input back.
\<close>

definition example_env :: env where
  "example_env =
     \<lparr> sr_microphone = (\<lambda>n. None),
       sr_listen = (\<lambda>n. Inr [82, 73, 70, 70]),
       tempfile_create = (\<lambda>n suffix. Inr (''/tmp/tmp'' @ suffix)),
       file_write = (\<lambda>n p b. None),
       sr_audio_file = (\<lambda>wav. Inr wav),
       sr_recognize_google = (\<lambda>n a. Inr ''hello''),
       langdetect_detect = (\<lambda>n t. Inr ''en''),
       mtranslate_translate = (\<lambda>n t c src. Inr ''hola''),
       gtts_init = (\<lambda>t l. None),
       gtts_save = (\<lambda>n t l. Inr [73, 68, 51]),
       pydub_from_file = (\<lambda>b. Inr (AudioSegment b)),
       pydub_speedup = (\<lambda>a s. Inr a),
       pydub_export = (\<lambda>a. case a of AudioSegment b \<Rightarrow> Inr (255 # b)),
       python_unbound_local =
         (\<lambda>v. ''cannot access local variable '' @ [CHR 0x27] @ v @ [CHR 0x27] @
               '' where it is not associated with a value'')
     \<rparr>"

definition initial_session :: session where
  "initial_session =
     \<lparr> input_text = None, detected_lang = None, translated_text = None, target_lang = None \<rparr>"

definition initial_world :: world where
  "initial_world =
     \<lparr> files = Map.empty, temps = [], ui = [], gtts_calls = [], clock = 0,
       session = initial_session \<rparr>"

definition service_down :: exn where
  "service_down = Exn OtherException ''Connection refused''"

text \<open>The same run with the text-to-speech service unreachable.\<close>

definition tts_down_env :: env where
  "tts_down_env = example_env\<lparr>gtts_save := (\<lambda>n t l. Inl service_down)\<rparr>"

text \<open>A session in which \<open>hello\<close> was recorded and translated, with no target language stored.\<close>

definition translated_world :: world where
  "translated_world =
     initial_world\<lparr>session :=
       initial_session\<lparr>input_text := Some ''hello'', translated_text := Some ''hola''\<rparr>\<rparr>"

text \<open>Runs in which one step of the codec fails, and runs of the language detector.\<close>

definition decode_fails_env :: env where
  "decode_fails_env =
     example_env\<lparr>pydub_from_file := (\<lambda>b. Inl (Exn OtherException ''Decoding failed''))\<rparr>"

definition speedup_fails_env :: env where
  "speedup_fails_env =
     example_env\<lparr>pydub_speedup := (\<lambda>a s. Inl (Exn OtherException ''chunk size is zero''))\<rparr>"

definition export_fails_env :: env where
  "export_fails_env =
     example_env\<lparr>pydub_export := (\<lambda>a. Inl (Exn OtherException ''Encoding failed''))\<rparr>"

definition detect_fails_env :: env where
  "detect_fails_env =
     example_env\<lparr>langdetect_detect := (\<lambda>n t. Inl (Exn OtherException ''No features in text.''))\<rparr>"

definition korean_env :: env where
  "korean_env = example_env\<lparr>langdetect_detect := (\<lambda>n t. Inr ''ko'')\<rparr>"

text \<open>Runs in which the recording or the recognition fails, and one with the translation service down.\<close>

definition silence_env :: env where
  "silence_env =
     example_env\<lparr>sr_listen :=
       (\<lambda>n. Inl (Exn WaitTimeoutError ''listening timed out while waiting for phrase to start''))\<rparr>"

definition garbled_env :: env where
  "garbled_env = example_env\<lparr>sr_recognize_google := (\<lambda>n a. Inl (Exn UnknownValueError []))\<rparr>"

definition recognizer_down_env :: env where
  "recognizer_down_env =
     example_env\<lparr>sr_recognize_google :=
       (\<lambda>n a. Inl (Exn RequestError ''recognition connection failed''))\<rparr>"

definition translate_down_env :: env where
  "translate_down_env = example_env\<lparr>mtranslate_translate := (\<lambda>n t c src. Inl service_down)\<rparr>"

text \<open>A text-to-speech service whose audio depends on the voice it is asked for.\<close>

definition voices_env :: env where
  "voices_env = example_env\<lparr>gtts_save := (\<lambda>n t l. if l = ''en'' then Inr [101, 110] else Inr [111])\<rparr>"



section \<open>Properties\<close>

subsection \<open>Shared facts about \<open>text_to_speech\<close>\<close>

lemmas tts_defs = text_to_speech_def text_to_speech_try_def text_to_speech_except_def
  named_temporary_file_def unlink_if_exists_def adjust_speed_def try_except_def
  adjust_speed_try_def st_emit_def tick_def Let_def

lemma tts_total: "\<exists>ok. fst (text_to_speech env t c s w) = Inr ok"
  by (auto simp add: tts_defs split: sum.splits option.splits)

lemma tts_session: "session (snd (text_to_speech env t c s w)) = session w"
  by (auto simp add: tts_defs split: sum.splits option.splits)

lemma tts_gtts_calls:
  "gtts_calls (snd (text_to_speech env t c s w)) =
     gtts_calls w @ (case tempfile_create env (clock w) ''.mp3'' of
                       Inl e \<Rightarrow> []
                     | Inr p \<Rightarrow> [(t, dict_get TTS_LANGUAGE_MAPPING c ''en'')])"
  by (auto simp add: tts_defs split: sum.splits option.splits)

lemma tts_ui_last:
  "(case fst (text_to_speech env t c s w) of
      Inl e \<Rightarrow> False
    | Inr ok \<Rightarrow>
        if ok then (\<exists>b. last (ui (snd (text_to_speech env t c s w))) = StAudio b)
        else (\<exists>m. last (ui (snd (text_to_speech env t c s w))) =
                StError (''Text-to-speech error: '' @ m)))"
  by (auto simp add: tts_defs split: sum.splits option.splits)

lemma voice_en: "dict_get TTS_LANGUAGE_MAPPING ''en'' ''en'' = ''en''"
  by (simp add: dict_get_def TTS_LANGUAGE_MAPPING_def)

lemma dict_get_None: "map_of d k = None \<Longrightarrow> dict_get d k x = x"
  by (simp add: dict_get_def)

lemma tts_synthesis:
  assumes "tempfile_create env (clock w) ''.mp3'' = Inr p"
  shows "(case gtts_init env t (dict_get TTS_LANGUAGE_MAPPING c ''en'') of
        Some e \<Rightarrow>
          fst (text_to_speech env t c s w) = Inr False \<and>
          ui (snd (text_to_speech env t c s w)) =
            ui w @ [StError (''Text-to-speech error: '' @ str_exn e)]
      | None \<Rightarrow>
         (case gtts_save env (Suc (clock w)) t (dict_get TTS_LANGUAGE_MAPPING c ''en'') of
            Inl e \<Rightarrow>
              fst (text_to_speech env t c s w) = Inr False \<and>
              ui (snd (text_to_speech env t c s w)) =
                ui w @ [StError (''Text-to-speech error: '' @ str_exn e)]
          | Inr mp3 \<Rightarrow>
              fst (text_to_speech env t c s w) = Inr True \<and>
              (if float_ne s (Fin 1)
               then last (ui (snd (text_to_speech env t c s w))) =
                      StAudio (case fst (adjust_speed env mp3 s w) of
                                 Inl e \<Rightarrow> mp3 | Inr b \<Rightarrow> b)
               else ui (snd (text_to_speech env t c s w)) = ui w @ [StAudio mp3])))"
  using assms by (auto simp add: tts_defs split: sum.splits option.splits)

subsection \<open>Speed adjustment\<close>

text \<open>
  Claim C1, as stated: for every byte string \<open>b\<close>, \<open>adjust_speed(b, 1.0)\<close> returns \<open>b\<close>
  itself. It fails: at speed 1.0 the function still decodes its input and encodes it
  again, and an encoder that does not reproduce the input byte for byte gives another
  byte string.
\<close>

theorem adjust_speed_identity_counterexample:
  "fst (adjust_speed example_env [1, 2, 3] (Fin 1) initial_world) \<noteq> Inr [1, 2, 3]"
  by (simp add: adjust_speed_def try_except_def adjust_speed_try_def example_env_def)

text \<open>
  Claim C1, amended: at speed 1.0 \<open>adjust_speed\<close> applies no speed change; it returns the
  re-encoding of the decoded input, and the input itself when decoding or encoding fails.
  The identity at speed 1.0 holds one level up: \<open>text_to_speech\<close> does not call
  \<open>adjust_speed\<close> at speed 1.0, and when the synthesis succeeds it plays exactly the bytes
  that the synthesis wrote, and nothing else appears on the page.
\<close>

theorem adjust_speed_unit_speed:
  "fst (adjust_speed env b (Fin 1) w) =
     Inr (case pydub_from_file env b of
            Inl e \<Rightarrow> b
          | Inr a \<Rightarrow> (case pydub_export env a of Inl e \<Rightarrow> b | Inr out \<Rightarrow> out)) \<and>
   (\<forall>p mp3. tempfile_create env (clock w) ''.mp3'' = Inr p \<longrightarrow>
      gtts_init env t (dict_get TTS_LANGUAGE_MAPPING c ''en'') = None \<longrightarrow>
      gtts_save env (Suc (clock w)) t (dict_get TTS_LANGUAGE_MAPPING c ''en'') = Inr mp3 \<longrightarrow>
      fst (text_to_speech env t c (Fin 1) w) = Inr True \<and>
      ui (snd (text_to_speech env t c (Fin 1) w)) = ui w @ [StAudio mp3])"
proof
  show "fst (adjust_speed env b (Fin 1) w) =
     Inr (case pydub_from_file env b of
            Inl e \<Rightarrow> b
          | Inr a \<Rightarrow> (case pydub_export env a of Inl e \<Rightarrow> b | Inr out \<Rightarrow> out))"
    by (simp add: adjust_speed_def try_except_def adjust_speed_try_def split: sum.splits)
next
  show "\<forall>p mp3. tempfile_create env (clock w) ''.mp3'' = Inr p \<longrightarrow>
      gtts_init env t (dict_get TTS_LANGUAGE_MAPPING c ''en'') = None \<longrightarrow>
      gtts_save env (Suc (clock w)) t (dict_get TTS_LANGUAGE_MAPPING c ''en'') = Inr mp3 \<longrightarrow>
      fst (text_to_speech env t c (Fin 1) w) = Inr True \<and>
      ui (snd (text_to_speech env t c (Fin 1) w)) = ui w @ [StAudio mp3]"
  proof (intro allI impI)
    fix p mp3
    assume "tempfile_create env (clock w) ''.mp3'' = Inr p"
      and "gtts_init env t (dict_get TTS_LANGUAGE_MAPPING c ''en'') = None"
      and "gtts_save env (Suc (clock w)) t (dict_get TTS_LANGUAGE_MAPPING c ''en'') = Inr mp3"
    then show "fst (text_to_speech env t c (Fin 1) w) = Inr True \<and>
      ui (snd (text_to_speech env t c (Fin 1) w)) = ui w @ [StAudio mp3]"
      using tts_synthesis[where env=env and w=w and p=p and t=t and c=c and s="Fin 1"]
      by simp
  qed
qed

theorem adjust_speed_unit_speed_witness:
  "fst (adjust_speed example_env [1, 2, 3] (Fin 1) initial_world) = Inr [255, 1, 2, 3] \<and>
   fst (adjust_speed decode_fails_env [1, 2, 3] (Fin 1) initial_world) = Inr [1, 2, 3] \<and>
   tempfile_create example_env (clock initial_world) ''.mp3'' = Inr ''/tmp/tmp.mp3'' \<and>
   gtts_init example_env ''hola'' (dict_get TTS_LANGUAGE_MAPPING ''es'' ''en'') = None \<and>
   gtts_save example_env (Suc (clock initial_world)) ''hola''
     (dict_get TTS_LANGUAGE_MAPPING ''es'' ''en'') = Inr [73, 68, 51] \<and>
   fst (text_to_speech example_env ''hola'' ''es'' (Fin 1) initial_world) = Inr True \<and>
   ui (snd (text_to_speech example_env ''hola'' ''es'' (Fin 1) initial_world)) =
     [StAudio [73, 68, 51]]"
proof -
  have tf: "tempfile_create example_env (clock initial_world) ''.mp3'' = Inr ''/tmp/tmp.mp3''"
    by (simp add: example_env_def)
  have gi: "gtts_init example_env ''hola'' (dict_get TTS_LANGUAGE_MAPPING ''es'' ''en'') = None"
    by (simp add: example_env_def)
  have gs: "gtts_save example_env (Suc (clock initial_world)) ''hola''
     (dict_get TTS_LANGUAGE_MAPPING ''es'' ''en'') = Inr [73, 68, 51]"
    by (simp add: example_env_def)
  have page: "ui initial_world = []"
    by (simp add: initial_world_def)
  note unit = adjust_speed_unit_speed
                [of example_env "[1, 2, 3]" initial_world "''hola''" "''es''"]
  from unit
  have a1: "fst (adjust_speed example_env [1, 2, 3] (Fin 1) initial_world) = Inr [255, 1, 2, 3]"
    by (simp add: example_env_def)
  from adjust_speed_unit_speed [of decode_fails_env "[1, 2, 3]" initial_world]
  have a2: "fst (adjust_speed decode_fails_env [1, 2, 3] (Fin 1) initial_world) = Inr [1, 2, 3]"
    by (simp add: decode_fails_env_def example_env_def)
  from unit tf gi gs
  have "fst (text_to_speech example_env ''hola'' ''es'' (Fin 1) initial_world) = Inr True \<and>
     ui (snd (text_to_speech example_env ''hola'' ''es'' (Fin 1) initial_world)) =
       ui initial_world @ [StAudio [73, 68, 51]]"
    by blast
  then have played:
    "fst (text_to_speech example_env ''hola'' ''es'' (Fin 1) initial_world) = Inr True \<and>
     ui (snd (text_to_speech example_env ''hola'' ''es'' (Fin 1) initial_world)) =
       [StAudio [73, 68, 51]]"
    by (simp add: page)
  from a1 a2 tf gi gs played show ?thesis by blast
qed

text \<open>
  Claim C4: for every byte string \<open>b\<close> and every speed \<open>s\<close>, \<open>adjust_speed(b, s)\<close> does
  not raise, and whenever the decoding, the speed change or the re-encoding fails it
  returns \<open>b\<close>.
\<close>

theorem adjust_speed_never_raises:
  "(\<exists>r. fst (adjust_speed env b s w) = Inr r) \<and>
   (\<forall>e. pydub_from_file env b = Inl e \<longrightarrow> fst (adjust_speed env b s w) = Inr b) \<and>
   (\<forall>a e. pydub_from_file env b = Inr a \<longrightarrow> float_ne s (Fin 1) \<longrightarrow>
           pydub_speedup env a s = Inl e \<longrightarrow> fst (adjust_speed env b s w) = Inr b) \<and>
   (\<forall>a a' e. pydub_from_file env b = Inr a \<longrightarrow>
           (if float_ne s (Fin 1) then pydub_speedup env a s else Inr a) = Inr a' \<longrightarrow>
           pydub_export env a' = Inl e \<longrightarrow> fst (adjust_speed env b s w) = Inr b)"
  by (auto simp add: adjust_speed_def try_except_def adjust_speed_try_def split: sum.splits)

theorem adjust_speed_never_raises_witness:
  "pydub_from_file decode_fails_env [1, 2, 3] = Inl (Exn OtherException ''Decoding failed'') \<and>
   fst (adjust_speed decode_fails_env [1, 2, 3] (Fin 2) initial_world) = Inr [1, 2, 3] \<and>
   pydub_from_file speedup_fails_env [1, 2, 3] = Inr (AudioSegment [1, 2, 3]) \<and>
   float_ne (Fin 2) (Fin 1) \<and>
   pydub_speedup speedup_fails_env (AudioSegment [1, 2, 3]) (Fin 2) =
     Inl (Exn OtherException ''chunk size is zero'') \<and>
   fst (adjust_speed speedup_fails_env [1, 2, 3] (Fin 2) initial_world) = Inr [1, 2, 3] \<and>
   pydub_export export_fails_env (AudioSegment [1, 2, 3]) =
     Inl (Exn OtherException ''Encoding failed'') \<and>
   fst (adjust_speed export_fails_env [1, 2, 3] (Fin 2) initial_world) = Inr [1, 2, 3]"
  using adjust_speed_never_raises [of decode_fails_env "[1, 2, 3]" "Fin 2" initial_world]
        adjust_speed_never_raises [of speedup_fails_env "[1, 2, 3]" "Fin 2" initial_world]
        adjust_speed_never_raises [of export_fails_env "[1, 2, 3]" "Fin 2" initial_world]
  by (simp add: decode_fails_env_def speedup_fails_env_def export_fails_env_def example_env_def)

subsection \<open>Language detection\<close>

text \<open>
  Claim C5: for every input string \<open>t\<close>, \<open>detect_language(t)\<close> does not raise, and when the
  detection fails it returns the pair \<open>(None, "Unknown")\<close>.
\<close>

theorem detect_language_never_raises:
  "(\<exists>r. fst (detect_language env t w) = Inr r) \<and>
   (\<forall>e. langdetect_detect env (clock w) t = Inl e \<longrightarrow>
        fst (detect_language env t w) = Inr (None, ''Unknown''))"
  by (auto simp add: detect_language_def try_except_def detect_language_try_def
        split: sum.splits)

theorem detect_language_never_raises_witness:
  "langdetect_detect detect_fails_env (clock initial_world) ''...''
     = Inl (Exn OtherException ''No features in text.'') \<and>
   fst (detect_language detect_fails_env ''...'' initial_world) = Inr (None, ''Unknown'')"
  using detect_language_never_raises [of detect_fails_env "''...''" initial_world]
  by (simp add: detect_fails_env_def example_env_def)

text \<open>
  Claim C9: when the detection succeeds with a code that is not a key of \<open>LANGUAGES\<close>,
  \<open>detect_language\<close> returns the pair of that code with itself: the display name is the
  raw code.
\<close>

theorem detect_language_unregistered_code:
  "langdetect_detect env (clock w) t = Inr code \<Longrightarrow> map_of LANGUAGES code = None \<Longrightarrow>
   fst (detect_language env t w) = Inr (Some code, code)"
  by (simp add: detect_language_def try_except_def detect_language_try_def dict_get_def)

theorem detect_language_unregistered_code_witness:
  "langdetect_detect korean_env (clock initial_world) ''annyeong'' = Inr ''ko'' \<and>
   map_of LANGUAGES ''ko'' = None \<and>
   fst (detect_language korean_env ''annyeong'' initial_world) = Inr (Some ''ko'', ''ko'')"
proof -
  have d: "langdetect_detect korean_env (clock initial_world) ''annyeong'' = Inr ''ko''"
    by (simp add: korean_env_def example_env_def)
  have u: "map_of LANGUAGES ''ko'' = None"
    by (simp add: LANGUAGES_def)
  from detect_language_unregistered_code [OF d u] d u show ?thesis by simp
qed

subsection \<open>Synthesis and the fallback to English\<close>

text \<open>
  Claim C2, as stated: \<open>text_to_speech(t, c)\<close> either returns non-empty audio bytes or
  raises. It fails: when the service is down the function neither raises nor returns
  audio; it renders the error and returns \<open>False\<close>.
\<close>

theorem text_to_speech_raises_counterexample:
  "fst (text_to_speech tts_down_env ''hola'' ''es'' (Fin 1) initial_world) = Inr False \<and>
   ui (snd (text_to_speech tts_down_env ''hola'' ''es'' (Fin 1) initial_world)) =
     [StError ''Text-to-speech error: Connection refused'']"
  by (simp add: tts_defs tts_down_env_def example_env_def initial_world_def service_down_def
        dict_get_def TTS_LANGUAGE_MAPPING_def)

text \<open>
  Claim C2, amended: for every text \<open>t\<close> and code \<open>c\<close>, \<open>text_to_speech(t, c)\<close> does not
  raise; it returns \<open>True\<close> after handing the audio to the player, or \<open>False\<close> after
  rendering a text-to-speech error. When it returns \<open>True\<close> the caller makes no further
  call; when it returns \<open>False\<close> the caller renders a warning and makes exactly one
  further call, with language \<open>'en'\<close>, which constructs at most one more \<open>gTTS\<close> object,
  for the voice \<open>'en'\<close>.
\<close>

theorem text_to_speech_outcome_and_fallback:
  assumes "text_to_speech env t c s w = (r, w')"
  shows "(\<exists>ok. r = Inr ok) \<and>
    (r = Inr True \<longrightarrow>
       (\<exists>b. last (ui w') = StAudio b) \<and> speak_translation env t c s w = (Inr (), w')) \<and>
    (r = Inr False \<longrightarrow>
       (\<exists>m. last (ui w') = StError (''Text-to-speech error: '' @ m)) \<and>
       speak_translation env t c s w =
         (Inr (), snd (text_to_speech env t ''en'' s
            (st_emit (StWarning
               ''Couldn't play audio in selected language. Trying English...'') w'))) \<and>
       gtts_calls (snd (speak_translation env t c s w)) =
         gtts_calls w' @ (case tempfile_create env (clock w') ''.mp3'' of
                            Inl e \<Rightarrow> [] | Inr p \<Rightarrow> [(t, ''en'')]))"
proof -
  from tts_total[of env t c s w] assms obtain ok where r: "r = Inr ok" by auto
  have fs: "fst (text_to_speech env t c s w) = Inr ok" "snd (text_to_speech env t c s w) = w'"
    using assms r by simp_all
  let ?w2 = "st_emit (StWarning
               ''Couldn't play audio in selected language. Trying English...'') w'"
  obtain ok2 where r2: "fst (text_to_speech env t ''en'' s ?w2) = Inr ok2"
    using tts_total[of env t "''en''" s ?w2] by auto
  have last: "if ok then (\<exists>b. last (ui w') = StAudio b)
              else (\<exists>m. last (ui w') = StError (''Text-to-speech error: '' @ m))"
    using tts_ui_last[of env t c s w] unfolding fs by (simp split: if_splits)
  have sp: "speak_translation env t c s w =
      (if ok then (Inr (), w') else (Inr (), snd (text_to_speech env t ''en'' s ?w2)))"
    using assms r r2
    by (cases "text_to_speech env t ''en'' s ?w2") (simp add: speak_translation_def)
  have calls: "gtts_calls (snd (text_to_speech env t ''en'' s ?w2)) =
      gtts_calls w' @ (case tempfile_create env (clock w') ''.mp3'' of
                            Inl e \<Rightarrow> [] | Inr p \<Rightarrow> [(t, ''en'')])"
    by (simp add: tts_gtts_calls voice_en st_emit_def split: sum.splits)
  show ?thesis
  proof (cases ok)
    case True
    with r last sp show ?thesis by auto
  next
    case False
    have "snd (speak_translation env t c s w) = snd (text_to_speech env t ''en'' s ?w2)"
      using sp False by simp
    with False r last sp calls show ?thesis by auto
  qed
qed

theorem text_to_speech_outcome_and_fallback_witness:
  "fst (text_to_speech tts_down_env ''hola'' ''es'' (Fin 1) translated_world) = Inr False \<and>
   fst (speak_translation tts_down_env ''hola'' ''es'' (Fin 1) translated_world) = Inr () \<and>
   gtts_calls (snd (speak_translation tts_down_env ''hola'' ''es'' (Fin 1) translated_world)) =
     [(''hola'', ''es''), (''hola'', ''en'')]"
proof -
  let ?first = "text_to_speech tts_down_env ''hola'' ''es'' (Fin 1) translated_world"
  have h: "?first = (fst ?first, snd ?first)" by simp
  have f: "fst ?first = Inr False"
    by (simp add: tts_defs tts_down_env_def example_env_def translated_world_def
          initial_world_def service_down_def dict_get_def TTS_LANGUAGE_MAPPING_def)
  have g: "gtts_calls (snd ?first) = [(''hola'', ''es'')]"
    by (simp add: tts_defs tts_down_env_def example_env_def translated_world_def
          initial_world_def service_down_def dict_get_def TTS_LANGUAGE_MAPPING_def)
  have c: "tempfile_create tts_down_env (clock (snd ?first)) ''.mp3'' = Inr ''/tmp/tmp.mp3''"
    by (simp add: tts_down_env_def example_env_def)
  note first = text_to_speech_outcome_and_fallback [OF h]
  from first f have sp: "fst (speak_translation tts_down_env ''hola'' ''es'' (Fin 1)
      translated_world) = Inr ()"
    by simp
  from first f have "gtts_calls (snd (speak_translation tts_down_env ''hola'' ''es'' (Fin 1)
      translated_world)) =
    gtts_calls (snd ?first) @
      (case tempfile_create tts_down_env (clock (snd ?first)) ''.mp3'' of
         Inl e \<Rightarrow> [] | Inr p \<Rightarrow> [(''hola'', ''en'')])"
    by blast
  then have "gtts_calls (snd (speak_translation tts_down_env ''hola'' ''es'' (Fin 1)
      translated_world)) = [(''hola'', ''es''), (''hola'', ''en'')]"
    by (simp only: g c sum.case append.simps)
  with f sp show ?thesis by blast
qed

text \<open>
  Claim C8: for every text and every language code \<open>c\<close>, the synthesis looks \<open>c\<close> up in
  \<open>TTS_LANGUAGE_MAPPING\<close> and uses the voice \<open>'en'\<close> when \<open>c\<close> has no entry, instead of
  failing. With \<open>voice\<close> the looked-up voice: the \<open>gTTS\<close> object is constructed for
  \<open>voice\<close>; once the temporary file is there, the outcome is that of the service asked
  for \<open>voice\<close> (its constructor's or its request's error is rendered and \<open>False\<close> returned,
  or its audio is played, after the speed adjustment when the speed is not 1.0); and for
  an unmapped code \<open>voice\<close> is \<open>'en'\<close> and the whole call behaves as the call with \<open>'en'\<close>.
\<close>

theorem text_to_speech_voice_lookup:
  assumes "voice = (case map_of TTS_LANGUAGE_MAPPING c of None \<Rightarrow> ''en'' | Some v \<Rightarrow> v)"
  shows "gtts_calls (snd (text_to_speech env t c s w)) =
      gtts_calls w @ (case tempfile_create env (clock w) ''.mp3'' of
                        Inl e \<Rightarrow> []
                      | Inr p \<Rightarrow> [(t, voice)]) \<and>
    (\<forall>p. tempfile_create env (clock w) ''.mp3'' = Inr p \<longrightarrow>
       (case gtts_init env t voice of
          Some e \<Rightarrow>
            fst (text_to_speech env t c s w) = Inr False \<and>
            last (ui (snd (text_to_speech env t c s w))) =
              StError (''Text-to-speech error: '' @ str_exn e)
        | None \<Rightarrow>
           (case gtts_save env (Suc (clock w)) t voice of
              Inl e \<Rightarrow>
                fst (text_to_speech env t c s w) = Inr False \<and>
                last (ui (snd (text_to_speech env t c s w))) =
                  StError (''Text-to-speech error: '' @ str_exn e)
            | Inr mp3 \<Rightarrow>
                fst (text_to_speech env t c s w) = Inr True \<and>
                last (ui (snd (text_to_speech env t c s w))) =
                  StAudio (if float_ne s (Fin 1)
                           then (case fst (adjust_speed env mp3 s w) of
                                   Inl e \<Rightarrow> mp3 | Inr b \<Rightarrow> b)
                           else mp3)))) \<and>
    (map_of TTS_LANGUAGE_MAPPING c = None \<longrightarrow>
       voice = ''en'' \<and> text_to_speech env t c s w = text_to_speech env t ''en'' s w)"
proof -
  have voice: "dict_get TTS_LANGUAGE_MAPPING c ''en'' = voice"
    using assms by (simp add: dict_get_def)
  have calls: "gtts_calls (snd (text_to_speech env t c s w)) =
      gtts_calls w @ (case tempfile_create env (clock w) ''.mp3'' of
                        Inl e \<Rightarrow> []
                      | Inr p \<Rightarrow> [(t, voice)])"
    by (simp add: tts_gtts_calls voice split: sum.splits)
  have outcome: "\<forall>p. tempfile_create env (clock w) ''.mp3'' = Inr p \<longrightarrow>
       (case gtts_init env t voice of
          Some e \<Rightarrow>
            fst (text_to_speech env t c s w) = Inr False \<and>
            last (ui (snd (text_to_speech env t c s w))) =
              StError (''Text-to-speech error: '' @ str_exn e)
        | None \<Rightarrow>
           (case gtts_save env (Suc (clock w)) t voice of
              Inl e \<Rightarrow>
                fst (text_to_speech env t c s w) = Inr False \<and>
                last (ui (snd (text_to_speech env t c s w))) =
                  StError (''Text-to-speech error: '' @ str_exn e)
            | Inr mp3 \<Rightarrow>
                fst (text_to_speech env t c s w) = Inr True \<and>
                last (ui (snd (text_to_speech env t c s w))) =
                  StAudio (if float_ne s (Fin 1)
                           then (case fst (adjust_speed env mp3 s w) of
                                   Inl e \<Rightarrow> mp3 | Inr b \<Rightarrow> b)
                           else mp3)))"
  proof (intro allI impI)
    fix p
    assume "tempfile_create env (clock w) ''.mp3'' = Inr p"
    from tts_synthesis[OF this, of t c s]
    show "(case gtts_init env t voice of
          Some e \<Rightarrow>
            fst (text_to_speech env t c s w) = Inr False \<and>
            last (ui (snd (text_to_speech env t c s w))) =
              StError (''Text-to-speech error: '' @ str_exn e)
        | None \<Rightarrow>
           (case gtts_save env (Suc (clock w)) t voice of
              Inl e \<Rightarrow>
                fst (text_to_speech env t c s w) = Inr False \<and>
                last (ui (snd (text_to_speech env t c s w))) =
                  StError (''Text-to-speech error: '' @ str_exn e)
            | Inr mp3 \<Rightarrow>
                fst (text_to_speech env t c s w) = Inr True \<and>
                last (ui (snd (text_to_speech env t c s w))) =
                  StAudio (if float_ne s (Fin 1)
                           then (case fst (adjust_speed env mp3 s w) of
                                   Inl e \<Rightarrow> mp3 | Inr b \<Rightarrow> b)
                           else mp3)))"
      unfolding voice by (auto split: option.splits sum.splits if_splits)
  qed
  have unmapped: "map_of TTS_LANGUAGE_MAPPING c = None \<longrightarrow>
       voice = ''en'' \<and> text_to_speech env t c s w = text_to_speech env t ''en'' s w"
  proof
    assume none: "map_of TTS_LANGUAGE_MAPPING c = None"
    then have eq: "dict_get TTS_LANGUAGE_MAPPING c ''en'' = ''en''"
      by (rule dict_get_None)
    have same: "text_to_speech env t c s w = text_to_speech env t ''en'' s w"
      unfolding text_to_speech_def text_to_speech_try_def eq voice_en by (rule refl)
    from none assms same
    show "voice = ''en'' \<and> text_to_speech env t c s w = text_to_speech env t ''en'' s w"
      by simp
  qed
  from calls outcome unmapped show ?thesis by blast
qed

theorem text_to_speech_voice_lookup_witness:
  "''es'' = (case map_of TTS_LANGUAGE_MAPPING ''es'' of None \<Rightarrow> ''en'' | Some v \<Rightarrow> v) \<and>
   fst (text_to_speech voices_env ''hola'' ''es'' (Fin 1) initial_world) = Inr True \<and>
   last (ui (snd (text_to_speech voices_env ''hola'' ''es'' (Fin 1) initial_world))) =
     StAudio [111] \<and>
   map_of TTS_LANGUAGE_MAPPING ''ko'' = None \<and>
   fst (text_to_speech voices_env ''annyeong'' ''ko'' (Fin 1) initial_world) = Inr True \<and>
   last (ui (snd (text_to_speech voices_env ''annyeong'' ''ko'' (Fin 1) initial_world))) =
     StAudio [101, 110] \<and>
   gtts_calls (snd (text_to_speech voices_env ''annyeong'' ''ko'' (Fin 1) initial_world)) =
     [(''annyeong'', ''en'')] \<and>
   text_to_speech voices_env ''annyeong'' ''ko'' (Fin 1) initial_world =
     text_to_speech voices_env ''annyeong'' ''en'' (Fin 1) initial_world"
proof -
  have es: "''es'' = (case map_of TTS_LANGUAGE_MAPPING ''es'' of None \<Rightarrow> ''en'' | Some v \<Rightarrow> v)"
    by (simp add: TTS_LANGUAGE_MAPPING_def)
  have ko: "map_of TTS_LANGUAGE_MAPPING ''ko'' = None"
    by (simp add: TTS_LANGUAGE_MAPPING_def)
  have en: "''en'' = (case map_of TTS_LANGUAGE_MAPPING ''ko'' of None \<Rightarrow> ''en'' | Some v \<Rightarrow> v)"
    by (simp add: ko)
  have tf: "tempfile_create voices_env (clock initial_world) ''.mp3'' = Inr ''/tmp/tmp.mp3''"
    by (simp add: voices_env_def example_env_def)
  have g: "gtts_calls initial_world = []"
    by (simp add: initial_world_def)
  have gi: "gtts_init voices_env ''hola'' ''es'' = None"
    "gtts_init voices_env ''annyeong'' ''en'' = None"
    by (simp_all add: voices_env_def example_env_def)
  have gs: "gtts_save voices_env (Suc (clock initial_world)) ''hola'' ''es'' = Inr [111]"
    "gtts_save voices_env (Suc (clock initial_world)) ''annyeong'' ''en'' = Inr [101, 110]"
    by (simp_all add: voices_env_def example_env_def)
  note spanish = text_to_speech_voice_lookup
                   [OF es, of voices_env "''hola''" "Fin 1" initial_world]
  note korean = text_to_speech_voice_lookup
                  [OF en, of voices_env "''annyeong''" "Fin 1" initial_world]
  from spanish tf
  have "(case gtts_init voices_env ''hola'' ''es'' of
          Some e \<Rightarrow>
            fst (text_to_speech voices_env ''hola'' ''es'' (Fin 1) initial_world) = Inr False \<and>
            last (ui (snd (text_to_speech voices_env ''hola'' ''es'' (Fin 1) initial_world))) =
              StError (''Text-to-speech error: '' @ str_exn e)
        | None \<Rightarrow>
           (case gtts_save voices_env (Suc (clock initial_world)) ''hola'' ''es'' of
              Inl e \<Rightarrow>
                fst (text_to_speech voices_env ''hola'' ''es'' (Fin 1) initial_world) = Inr False \<and>
                last (ui (snd (text_to_speech voices_env ''hola'' ''es'' (Fin 1) initial_world))) =
                  StError (''Text-to-speech error: '' @ str_exn e)
            | Inr mp3 \<Rightarrow>
                fst (text_to_speech voices_env ''hola'' ''es'' (Fin 1) initial_world) = Inr True \<and>
                last (ui (snd (text_to_speech voices_env ''hola'' ''es'' (Fin 1) initial_world))) =
                  StAudio (if float_ne (Fin 1) (Fin 1)
                           then (case fst (adjust_speed voices_env mp3 (Fin 1) initial_world) of
                                   Inl e \<Rightarrow> mp3 | Inr b \<Rightarrow> b)
                           else mp3)))"
    by blast
  then have a: "fst (text_to_speech voices_env ''hola'' ''es'' (Fin 1) initial_world) = Inr True \<and>
     last (ui (snd (text_to_speech voices_env ''hola'' ''es'' (Fin 1) initial_world))) =
       StAudio [111]"
    by (simp add: gi gs)
  from korean tf
  have "(case gtts_init voices_env ''annyeong'' ''en'' of
          Some e \<Rightarrow>
            fst (text_to_speech voices_env ''annyeong'' ''ko'' (Fin 1) initial_world) = Inr False \<and>
            last (ui (snd (text_to_speech voices_env ''annyeong'' ''ko'' (Fin 1) initial_world))) =
              StError (''Text-to-speech error: '' @ str_exn e)
        | None \<Rightarrow>
           (case gtts_save voices_env (Suc (clock initial_world)) ''annyeong'' ''en'' of
              Inl e \<Rightarrow>
                fst (text_to_speech voices_env ''annyeong'' ''ko'' (Fin 1) initial_world) = Inr False \<and>
                last (ui (snd (text_to_speech voices_env ''annyeong'' ''ko'' (Fin 1) initial_world))) =
                  StError (''Text-to-speech error: '' @ str_exn e)
            | Inr mp3 \<Rightarrow>
                fst (text_to_speech voices_env ''annyeong'' ''ko'' (Fin 1) initial_world) = Inr True \<and>
                last (ui (snd (text_to_speech voices_env ''annyeong'' ''ko'' (Fin 1) initial_world))) =
                  StAudio (if float_ne (Fin 1) (Fin 1)
                           then (case fst (adjust_speed voices_env mp3 (Fin 1) initial_world) of
                                   Inl e \<Rightarrow> mp3 | Inr b \<Rightarrow> b)
                           else mp3)))"
    by blast
  then have b: "fst (text_to_speech voices_env ''annyeong'' ''ko'' (Fin 1) initial_world) = Inr True \<and>
     last (ui (snd (text_to_speech voices_env ''annyeong'' ''ko'' (Fin 1) initial_world))) =
       StAudio [101, 110]"
    by (simp add: gi gs)
  from korean
  have "gtts_calls (snd (text_to_speech voices_env ''annyeong'' ''ko'' (Fin 1) initial_world)) =
      gtts_calls initial_world @
        (case tempfile_create voices_env (clock initial_world) ''.mp3'' of
           Inl e \<Rightarrow> []
         | Inr p \<Rightarrow> [(''annyeong'', ''en'')])"
    by blast
  then have c:
    "gtts_calls (snd (text_to_speech voices_env ''annyeong'' ''ko'' (Fin 1) initial_world)) =
       [(''annyeong'', ''en'')]"
    by (simp add: tf g)
  from korean ko
  have d: "text_to_speech voices_env ''annyeong'' ''ko'' (Fin 1) initial_world =
     text_to_speech voices_env ''annyeong'' ''en'' (Fin 1) initial_world"
    by blast
  from es a ko b c d show ?thesis by blast
qed

subsection \<open>Playback of the translation\<close>






subsection \<open>Temporary files\<close>

lemma tts_files_temps:
  "(case tempfile_create env (clock w) ''.mp3'' of
      Inl e \<Rightarrow> temps (snd (text_to_speech env t c s w)) = temps w \<and>
               files (snd (text_to_speech env t c s w)) = files w
    | Inr p \<Rightarrow> temps (snd (text_to_speech env t c s w)) = temps w @ [p] \<and>
               files (snd (text_to_speech env t c s w)) = (files w)(p := None))"
  by (auto simp add: tts_defs split: sum.splits option.splits)

lemmas record_defs = record_clicked_def record_try_def record_audio_def
  named_temporary_file_def unlink_if_exists_def detect_language_def try_except_def
  detect_language_try_def st_emit_def tick_def Let_def

lemma record_audio_returns:
  "fst (record_audio env w) = Inr p \<Longrightarrow>
     files (snd (record_audio env w)) p \<noteq> None \<and>
     temps (snd (record_audio env w)) = temps w @ [p]"
  by (auto simp add: record_defs split: sum.splits option.splits if_splits)

lemma record_clicked_unlinks:
  "fst (record_audio env w) = Inr p \<Longrightarrow>
     files (snd (record_clicked env w)) p = None \<and>
     temps (snd (record_clicked env w)) = temps w @ [p]"
  by (auto simp add: record_defs split: sum.splits option.splits if_splits)

text \<open>
  Claim C3, as stated: every temporary file of \<open>record_audio\<close> and of \<open>text_to_speech\<close> is
  deleted on every exit path, and no temporary file outlives the function that created
  it. It fails for \<open>record_audio\<close>: the function returns the path of a file that is still
  there.
\<close>

theorem record_audio_file_outlives_counterexample:
  "fst (record_audio example_env initial_world) = Inr ''/tmp/tmp.wav'' \<and>
   files (snd (record_audio example_env initial_world)) ''/tmp/tmp.wav'' =
     Some [82, 73, 70, 70]"
  by (simp add: record_defs example_env_def initial_world_def)

text \<open>
  Claim C3, amended: every temporary file that \<open>text_to_speech\<close> creates is gone when
  \<open>text_to_speech\<close> returns, on every exit path. The temporary file of \<open>record_audio\<close>
  is handed to the caller: when \<open>record_audio\<close> returns its path the file exists, it is
  the only temporary file of the record action, and it is gone when the record action of
  \<open>main\<close> ends, whether the transcription succeeded or failed.
\<close>

theorem temporary_files_removed:
  "(\<forall>p \<in> set (drop (length (temps w)) (temps (snd (text_to_speech env t c s w)))).
       files (snd (text_to_speech env t c s w)) p = None) \<and>
   (\<forall>p. fst (record_audio env w) = Inr p \<longrightarrow>
       files (snd (record_audio env w)) p \<noteq> None \<and>
       temps (snd (record_clicked env w)) = temps w @ [p] \<and>
       files (snd (record_clicked env w)) p = None)"
  using tts_files_temps[where env=env and w=w and t=t and c=c and s=s]
    record_audio_returns[where env=env and w=w] record_clicked_unlinks[where env=env and w=w]
  by (auto split: sum.splits)

theorem temporary_files_removed_witness:
  "''/tmp/tmp.mp3'' \<in> set (drop (length (temps initial_world))
      (temps (snd (text_to_speech tts_down_env ''hola'' ''es'' (Fin 2) initial_world)))) \<and>
   files (snd (text_to_speech tts_down_env ''hola'' ''es'' (Fin 2) initial_world))
     ''/tmp/tmp.mp3'' = None \<and>
   fst (record_audio garbled_env initial_world) = Inr ''/tmp/tmp.wav'' \<and>
   files (snd (record_clicked garbled_env initial_world)) ''/tmp/tmp.wav'' = None"
proof -
  have m: "''/tmp/tmp.mp3'' \<in> set (drop (length (temps initial_world))
      (temps (snd (text_to_speech tts_down_env ''hola'' ''es'' (Fin 2) initial_world))))"
    by (simp add: tts_defs tts_down_env_def example_env_def initial_world_def service_down_def
          dict_get_def TTS_LANGUAGE_MAPPING_def)
  have r: "fst (record_audio garbled_env initial_world) = Inr ''/tmp/tmp.wav''"
    by (simp add: record_defs garbled_env_def example_env_def initial_world_def)
  from temporary_files_removed
         [of initial_world tts_down_env "''hola''" "''es''" "Fin 2"] m
  have a: "files (snd (text_to_speech tts_down_env ''hola'' ''es'' (Fin 2) initial_world))
     ''/tmp/tmp.mp3'' = None"
    by blast
  from temporary_files_removed [of initial_world garbled_env] r
  have b: "files (snd (record_clicked garbled_env initial_world)) ''/tmp/tmp.wav'' = None"
    by blast
  from m a r b show ?thesis by blast
qed

subsection \<open>Failures of the translate and record actions\<close>

text \<open>
  Claim C6: if the call of \<open>translate\<close> fails, the translate action leaves the session
  field \<open>translated_text\<close> as it was and renders an error message.
\<close>

theorem translate_failure_keeps_translated_text:
  "mtranslate_translate env (clock w) (input_text (session w)) (fst choice) ''auto'' = Inl e \<Longrightarrow>
   fst (translate_clicked env (Some choice) w) = Inr () \<and>
   translated_text (session (snd (translate_clicked env (Some choice) w))) =
     translated_text (session w) \<and>
   ui (snd (translate_clicked env (Some choice) w)) =
     ui w @ [StError (''Translation error: '' @ str_exn e)]"
  by (simp add: translate_clicked_def translate_try_def try_except_def st_emit_def tick_def)

theorem translate_failure_keeps_translated_text_witness:
  "mtranslate_translate translate_down_env (clock translated_world)
      (input_text (session translated_world)) (fst (''fr'', ''French'')) ''auto''
     = Inl service_down \<and>
   translated_text (session (snd (translate_clicked translate_down_env
      (Some (''fr'', ''French'')) translated_world))) = Some ''hola'' \<and>
   ui (snd (translate_clicked translate_down_env (Some (''fr'', ''French'')) translated_world)) =
     [StError ''Translation error: Connection refused'']"
proof -
  have h: "mtranslate_translate translate_down_env (clock translated_world)
      (input_text (session translated_world)) (fst (''fr'', ''French'')) ''auto''
     = Inl service_down"
    by (simp add: translate_down_env_def example_env_def)
  from translate_failure_keeps_translated_text [OF h] h show ?thesis
    by (simp add: translated_world_def initial_world_def initial_session_def service_down_def)
qed

lemma record_try_fails_session:
  "fst (record_try env w) = Inl e \<Longrightarrow> session (snd (snd (record_try env w))) = session w"
  by (auto simp add: record_defs split: sum.splits option.splits if_splits)

text \<open>
  Claim C7: if the record action fails (no speech before the microphone times out, audio
  that cannot be understood, an error of the recognition service, or any other
  exception of its \<open>try\<close> block), the session field \<open>input_text\<close> is not updated and an
  error is rendered.
\<close>

theorem record_failure_keeps_input_text:
  "fst (record_try env w) = Inl e \<Longrightarrow>
   fst (record_clicked env w) = Inr () \<and>
   input_text (session (snd (record_clicked env w))) = input_text (session w) \<and>
   ui (snd (record_clicked env w)) =
     ui (snd (snd (record_try env w))) @ [StError (record_error_message e)]"
  using record_try_fails_session[of env w e]
  by (cases "record_try env w")
     (auto simp add: record_clicked_def unlink_if_exists_def st_emit_def split: option.splits)

theorem record_failure_keeps_input_text_witness:
  "fst (record_try silence_env initial_world) =
     Inl (Exn WaitTimeoutError ''listening timed out while waiting for phrase to start'') \<and>
   input_text (session (snd (record_clicked silence_env initial_world))) = None \<and>
   ui (snd (record_clicked silence_env initial_world)) =
     [StInfo ''Speak now (3-5 seconds)...'',
      StError ''Error: listening timed out while waiting for phrase to start''] \<and>
   fst (record_try garbled_env initial_world) = Inl (Exn UnknownValueError []) \<and>
   input_text (session (snd (record_clicked garbled_env initial_world))) = None \<and>
   ui (snd (record_clicked garbled_env initial_world)) =
     [StInfo ''Speak now (3-5 seconds)...'',
      StError ''Could not understand audio. Please try again.''] \<and>
   fst (record_try recognizer_down_env initial_world) =
     Inl (Exn RequestError ''recognition connection failed'') \<and>
   input_text (session (snd (record_clicked recognizer_down_env initial_world))) = None \<and>
   ui (snd (record_clicked recognizer_down_env initial_world)) =
     [StInfo ''Speak now (3-5 seconds)...'',
      StError ''Speech recognition service error: recognition connection failed'']"
proof -
  have s: "fst (record_try silence_env initial_world) =
     Inl (Exn WaitTimeoutError ''listening timed out while waiting for phrase to start'')"
    "ui (snd (snd (record_try silence_env initial_world))) = [StInfo ''Speak now (3-5 seconds)...'']"
    by (simp_all add: record_defs silence_env_def example_env_def initial_world_def)
  have g: "fst (record_try garbled_env initial_world) = Inl (Exn UnknownValueError [])"
    "ui (snd (snd (record_try garbled_env initial_world))) = [StInfo ''Speak now (3-5 seconds)...'']"
    by (simp_all add: record_defs garbled_env_def example_env_def initial_world_def)
  have d: "fst (record_try recognizer_down_env initial_world) =
     Inl (Exn RequestError ''recognition connection failed'')"
    "ui (snd (snd (record_try recognizer_down_env initial_world))) =
       [StInfo ''Speak now (3-5 seconds)...'']"
    by (simp_all add: record_defs recognizer_down_env_def example_env_def initial_world_def)
  have i: "input_text (session initial_world) = None"
    by (simp add: initial_world_def initial_session_def)
  from record_failure_keeps_input_text [OF s(1)] record_failure_keeps_input_text [OF g(1)]
       record_failure_keeps_input_text [OF d(1)] s g d i
  show ?thesis by simp
qed

end
